theory Spec2Isabelle
  imports Main
begin

section \<open>The event loop of the DAG store (dagstore_control.go)\<close>

text \<open>
  The file embeds \<open>control\<close>, the single-writer event loop, and \<open>consumeNext\<close>, which
  picks the next task. The loop mutates one shard record per task and talks to the rest
  of the store only through calls whose bodies live in other files. Each such call is an
  event in the list the loop produces, in program order; what a call returns to the loop
  is read from the \<open>DAGStore\<close> record. Debug and info logging has no effect on the
  loop and is left out; the one warning that is the only consequence of an error is kept.
\<close>

subsection \<open>Data\<close>

type_synonym key = string
type_synonym mount = nat
type_synonym chan = nat
type_synonym addr = nat

text \<open>
  \<open>OpType\<close> is an \<open>int\<close> in the source, so a task can carry a tag outside the seven
  constants; the constants are numbered by \<open>iota\<close>.
\<close>

type_synonym OpType = int

definition OpShardRegister :: OpType where "OpShardRegister = 0"
definition OpShardInitialize :: OpType where "OpShardInitialize = 1"
definition OpShardMakeAvailable :: OpType where "OpShardMakeAvailable = 2"
definition OpShardDestroy :: OpType where "OpShardDestroy = 3"
definition OpShardAcquire :: OpType where "OpShardAcquire = 4"
definition OpShardFail :: OpType where "OpShardFail = 5"
definition OpShardRecover :: OpType where "OpShardRecover = 6"

text \<open>
  Modelled from the spec: the type \<open>ShardState\<close> is declared in another file. The loop
  compares against \<open>ShardStateNew\<close>, \<open>ShardStateAvailable\<close> and \<open>ShardStateErrored\<close>
  only; the other constructors are the remaining states the spec lists.
\<close>

datatype ShardState =
  ShardStateNew
  | ShardStateInitializing
  | ShardStateAvailable
  | ShardStateErrored
  | ShardStateServingNew
  | ShardStateDestroyed

text \<open>
  A Go \<open>error\<close> is nil or a value: \<open>error option\<close>. A value is a sentinel made by
  \<open>errors.New\<close> or the result of \<open>fmt.Errorf format args\<close>. An argument is the operand
  of a \<open>%w\<close> verb (an error, or nil), a shard state (\<open>%s\<close>, \<open>%d\<close>) or a key (\<open>%s\<close>).
\<close>

datatype error =
  ErrorString string
  | Errorf string "fmt_arg list"
and fmt_arg =
  ArgW error
  | ArgNil
  | ArgState ShardState
  | ArgKey key

definition err_arg :: "error option \<Rightarrow> fmt_arg" where
  "err_arg e = (case e of None \<Rightarrow> ArgNil | Some x \<Rightarrow> ArgW x)"

text \<open>
  \<open>errors.Is err target\<close> walks the tree of wrapped errors, depth first, and compares
  each with the target. \<open>chain\<close> lists that tree.
\<close>

primrec chain :: "error \<Rightarrow> error list" and chain_arg :: "fmt_arg \<Rightarrow> error list" where
  "chain (ErrorString m) = [ErrorString m]"
| "chain (Errorf f as) = Errorf f as # concat (map chain_arg as)"
| "chain_arg (ArgW e) = chain e"
| "chain_arg ArgNil = []"
| "chain_arg (ArgState st) = []"
| "chain_arg (ArgKey k) = []"

definition errors_Is :: "error \<Rightarrow> error \<Rightarrow> bool" where
  "errors_Is e target = (target \<in> set (chain e))"

text \<open>
  The sentinels the loop names. Their declarations are outside the source file; only
  their identity matters here.
\<close>

definition ErrShardInitializationFailed :: error where
  "ErrShardInitializationFailed = ErrorString ''shard initialization failed''"

definition ErrNotFound :: error where
  "ErrNotFound = ErrorString ''datastore: key not found''"


datatype "context" = Background | Ctx nat

text \<open>
  Modelled from the spec: the struct \<open>waiter\<close> is declared in another file; it is the
  pair of a caller context and a reply channel. Both may be nil.
\<close>

record waiter =
  ctx :: "context option"
  outCh :: "chan option"

text \<open>
  Modelled from the spec: the shard record is declared in another file. The fields are
  the ones the loop reads and writes. The mutex \<open>lk\<close> is the pair of events \<open>Lock\<close> and
  \<open>Unlock\<close>. \<open>wRegister\<close> and \<open>wRecover\<close> are pointers and may be nil; \<open>wAcquire\<close> holds the
  waiters the loop allocated itself.
\<close>

record Shard =
  key :: key
  state :: ShardState
  err :: "error option"
  lazy :: bool
  mount :: mount
  wRegister :: "waiter option"
  wRecover :: "waiter option"
  wAcquire :: "waiter list"
  recoverOnNextAcquire :: bool

text \<open>
  The struct \<open>task\<close> is declared in another file. The loop builds every task from the
  fields \<open>op\<close>, \<open>shard\<close>, \<open>waiter\<close> and \<open>err\<close> alone, and reads \<open>tsk.ctx\<close> and
  \<open>tsk.outCh\<close> of tasks built that way: it replaces the context of a waiter before
  queueing the task so that the handler, which reads \<open>tsk.ctx\<close>, runs the worker under
  that context. So \<open>ctx\<close> and \<open>outCh\<close> of a task are the fields of its waiter, an embedded
  pointer whose fields are promoted; reading them through a nil waiter is a nil pointer
  dereference. The field \<open>tsk_op\<close> is the source's \<open>tsk.op\<close>, and so on.
\<close>

record task =
  tsk_waiter :: "waiter option"
  tsk_op :: OpType
  tsk_shard :: addr
  tsk_err :: "error option"

datatype ShardResult = ShardResult (Key: key) (Error: "error option")

datatype ShardInfo = ShardInfo ShardState "error option"

datatype Trace = Trace key OpType ShardInfo

datatype channel = InternalCh | ExternalCh | CompletionCh

datatype worker =
  InitializeShard "context option" addr mount
  | AcquireAsync "context option" waiter addr mount

text \<open>
  What the loop does to the world outside the shard record, one event per call, send or
  goroutine started.
\<close>

datatype event =
  Lock addr
  | Unlock addr
  | QueueTask task channel
  | DispatchResult ShardResult "waiter option"
  | SendDispatchFailure ShardResult waiter
  | Go worker
  | Persist Shard
  | LogWarn string "error option"
  | TraceSend Trace

datatype panic = UnrecognizedOp OpType | NilPointerDereference

record IndexStat =
  Exists :: bool

text \<open>
  The store as the loop sees it: its global context, the two optional sinks, and what the
  collaborators in other files answer. \<open>shardFromPersistentState\<close> takes a pointer and
  returns an error; it is the returned error paired with the record it leaves behind.
\<close>

record DAGStore =
  d_ctx :: "context option"
  failureCh :: "chan option"
  traceCh :: "chan option"
  StatFullIndex :: "key \<Rightarrow> IndexStat \<times> error option"
  shardFromPersistentState :: "Shard \<Rightarrow> error option \<times> Shard"
  store_Delete :: "key \<Rightarrow> error option"
  persist :: "Shard \<Rightarrow> error option"

subsection \<open>Helpers of other files\<close>

text \<open>
  Modelled from the spec: \<open>dispatchResult\<close> is defined in another file; it submits one
  pair of result and waiter to the dispatcher per waiter given, in order.
\<close>

definition dispatchResult :: "ShardResult \<Rightarrow> waiter option list \<Rightarrow> event list" where
  "dispatchResult res ws = map (DispatchResult res) ws"

text \<open>
  Modelled from the spec: \<open>queueTask\<close> is defined in another file; it puts the task on
  the channel. The loop ignores what it returns.
\<close>

definition queueTask :: "task \<Rightarrow> channel \<Rightarrow> event list" where
  "queueTask tsk ch = [QueueTask tsk ch]"

text \<open>
  Modelled from the spec: \<open>failShard\<close> is defined in another file; it synthesizes an
  \<open>OpShardFail\<close> task for the shard, carrying the formatted error, on the channel.
\<close>

definition failShard :: "addr \<Rightarrow> channel \<Rightarrow> string \<Rightarrow> fmt_arg list \<Rightarrow> event list" where
  "failShard a ch format args =
     queueTask \<lparr>tsk_waiter = None, tsk_op = OpShardFail, tsk_shard = a,
                tsk_err = Some (Errorf format args)\<rparr> ch"

subsection \<open>The cases of the switch\<close>

text \<open>
  Each case returns the shard record it leaves, the events it caused and the value of
  \<open>persist\<close>, or the panic that ends the program. The arguments of a \<open>go\<close> statement are
  evaluated by the loop itself, so reading \<open>tsk.ctx\<close> there panics in the loop when the
  task has no waiter.
\<close>

type_synonym case_result = "panic + (Shard \<times> event list \<times> bool)"

definition case_Register :: "DAGStore \<Rightarrow> task \<Rightarrow> Shard \<Rightarrow> case_result" where
  "case_Register d tsk s =
     (if state s \<noteq> ShardStateNew then
        Inr (s, failShard (tsk_shard tsk) InternalCh
                  ''%w: expected shard to be in 'new' state; was: %s''
                  [ArgW ErrShardInitializationFailed, ArgState (state s)], True)
      else if lazy s then
        Inr (s, (if tsk_waiter tsk \<noteq> None
                 then dispatchResult (ShardResult (key s) None) [tsk_waiter tsk]
                 else []), True)
      else
        Inr (s\<lparr>wRegister := tsk_waiter tsk\<rparr>,
             queueTask \<lparr>tsk_waiter = tsk_waiter tsk, tsk_op = OpShardInitialize,
                        tsk_shard = tsk_shard tsk, tsk_err = None\<rparr>
               InternalCh, True))"

definition case_Initialize :: "DAGStore \<Rightarrow> task \<Rightarrow> Shard \<Rightarrow> case_result" where
  "case_Initialize d tsk s =
     (case StatFullIndex d (key s) of (istat, e) \<Rightarrow>
        if e = None \<and> Exists istat then
          Inr (s, queueTask \<lparr>tsk_waiter = None, tsk_op = OpShardMakeAvailable,
                             tsk_shard = tsk_shard tsk, tsk_err = None\<rparr> InternalCh, True)
        else
          (case tsk_waiter tsk of
             None \<Rightarrow> Inl NilPointerDereference
           | Some tw \<Rightarrow>
               Inr (s, [Go (InitializeShard (ctx tw) (tsk_shard tsk) (mount s))], True)))"

definition case_MakeAvailable :: "DAGStore \<Rightarrow> task \<Rightarrow> Shard \<Rightarrow> case_result" where
  "case_MakeAvailable d tsk s =
     (let s1 = s\<lparr>state := ShardStateAvailable, err := None\<rparr>;
          e1 = (if wRegister s1 \<noteq> None
                then dispatchResult (ShardResult (key s1) None) [wRegister s1] else []);
          s2 = (if wRegister s1 \<noteq> None then s1\<lparr>wRegister := None\<rparr> else s1);
          e2 = (if wRecover s2 \<noteq> None
                then dispatchResult (ShardResult (key s2) None) [wRecover s2] else []);
          s3 = (if wRecover s2 \<noteq> None then s2\<lparr>wRecover := None\<rparr> else s2);
          e3 = map (\<lambda>w. Go (AcquireAsync (ctx w) w (tsk_shard tsk) (mount s3))) (wAcquire s3)
      in Inr (s3\<lparr>wAcquire := []\<rparr>, e1 @ e2 @ e3, True))"

definition case_Acquire :: "DAGStore \<Rightarrow> task \<Rightarrow> Shard \<Rightarrow> case_result" where
  "case_Acquire d tsk s0 =
     (case shardFromPersistentState d s0 of (e, s) \<Rightarrow>
        if e \<noteq> None then
          Inr (s, dispatchResult
                    (ShardResult (key s) (Some (Errorf ''could not acquire shard: %w'' [err_arg e])))
                    [tsk_waiter tsk], False)
        else
          (case tsk_waiter tsk of
             None \<Rightarrow> Inl NilPointerDereference
           | Some tw \<Rightarrow>
              (let w = \<lparr>ctx = ctx tw, outCh = outCh tw\<rparr> in
               if state s = ShardStateErrored then
                 (if recoverOnNextAcquire s then
                    Inr (s\<lparr>wAcquire := wAcquire s @ [w], recoverOnNextAcquire := False\<rparr>,
                         queueTask \<lparr>tsk_waiter = Some \<lparr>ctx = d_ctx d, outCh = None\<rparr>,
                                    tsk_op = OpShardRecover, tsk_shard = tsk_shard tsk,
                                    tsk_err = None\<rparr> InternalCh, True)
                  else
                    Inr (s, dispatchResult
                              (ShardResult (key s)
                                 (Some (Errorf ''shard is in errored state; err: %w''
                                          [err_arg (err s)])))
                              [Some w], True))
               else if state s \<noteq> ShardStateAvailable then
                 (let s1 = s\<lparr>wAcquire := wAcquire s @ [w]\<rparr> in
                  if state s1 = ShardStateNew then
                    Inr (s1, queueTask \<lparr>tsk_waiter = Some (tw\<lparr>ctx := Some Background\<rparr>),
                                        tsk_op = OpShardInitialize, tsk_shard = tsk_shard tsk,
                                        tsk_err = None\<rparr> InternalCh, True)
                  else Inr (s1, [], True))
               else
                 Inr (s, [Go (AcquireAsync (ctx tw) w (tsk_shard tsk) (mount s))], True))))"

definition case_Fail :: "DAGStore \<Rightarrow> task \<Rightarrow> Shard \<Rightarrow> case_result" where
  "case_Fail d tsk s =
     (let wFailure = \<lparr>ctx = d_ctx d, outCh = failureCh d\<rparr>;
          s1 = s\<lparr>state := ShardStateErrored, err := tsk_err tsk\<rparr>;
          e1 = (if wRegister s1 \<noteq> None
                then dispatchResult
                       (ShardResult (key s1)
                          (Some (Errorf ''failed to register shard: %w'' [err_arg (tsk_err tsk)])))
                       [wRegister s1]
                else []);
          s2 = (if wRegister s1 \<noteq> None then s1\<lparr>wRegister := None\<rparr> else s1);
          e2 = (if wRecover s2 \<noteq> None
                then dispatchResult
                       (ShardResult (key s2)
                          (Some (Errorf ''failed to recover shard: %w'' [err_arg (tsk_err tsk)])))
                       [wRecover s2]
                else []);
          s3 = (if wRecover s2 \<noteq> None then s2\<lparr>wRecover := None\<rparr> else s2);
          e3 = (if length (wAcquire s3) > 0
                then dispatchResult
                       (ShardResult (key s3)
                          (Some (Errorf ''failed to acquire shard: %w'' [err_arg (tsk_err tsk)])))
                       (map Some (wAcquire s3))
                else []);
          s4 = (if length (wAcquire s3) > 0 then s3\<lparr>wAcquire := []\<rparr> else s3);
          e4 = (if failureCh d \<noteq> None
                then [SendDispatchFailure (ShardResult (key s4) (err s4)) wFailure]
                else [])
      in Inr (s4, e1 @ e2 @ e3 @ e4, True))"

definition case_Recover :: "DAGStore \<Rightarrow> task \<Rightarrow> Shard \<Rightarrow> case_result" where
  "case_Recover d tsk s0 =
     (case shardFromPersistentState d s0 of (e, s) \<Rightarrow>
        if e \<noteq> None then
          Inr (s, dispatchResult
                    (ShardResult (key s) (Some (Errorf ''could not recover shard: %w'' [err_arg e])))
                    [tsk_waiter tsk], False)
        else if state s \<noteq> ShardStateErrored then
          Inr (s, dispatchResult
                    (ShardResult (key s)
                       (Some (Errorf ''refused to recover shard in state other than errored; current state: %d''
                                [ArgState (state s)])))
                    [tsk_waiter tsk], True)
        else
          (case tsk_waiter tsk of
             None \<Rightarrow> Inl NilPointerDereference
           | Some tw \<Rightarrow>
               Inr (s\<lparr>wRecover := tsk_waiter tsk\<rparr>,
                    [Go (InitializeShard (ctx tw) (tsk_shard tsk) (mount s))], True)))"

definition case_Destroy :: "DAGStore \<Rightarrow> task \<Rightarrow> Shard \<Rightarrow> case_result" where
  "case_Destroy d tsk s =
     (case store_Delete d (key s) of
        None \<Rightarrow> Inr (s, [], False)
      | Some e \<Rightarrow>
          if \<not> errors_Is e ErrNotFound then
            Inr (s, dispatchResult
                      (ShardResult (key s)
                         (Some (Errorf ''failed to delete shard %s: %w'' [ArgKey (key s), ArgW e])))
                      [tsk_waiter tsk], False)
          else Inr (s, [], False))"

definition control_switch :: "DAGStore \<Rightarrow> task \<Rightarrow> Shard \<Rightarrow> case_result" where
  "control_switch d tsk s =
     (if tsk_op tsk = OpShardRegister then case_Register d tsk s
      else if tsk_op tsk = OpShardInitialize then case_Initialize d tsk s
      else if tsk_op tsk = OpShardMakeAvailable then case_MakeAvailable d tsk s
      else if tsk_op tsk = OpShardAcquire then case_Acquire d tsk s
      else if tsk_op tsk = OpShardFail then case_Fail d tsk s
      else if tsk_op tsk = OpShardRecover then case_Recover d tsk s
      else if tsk_op tsk = OpShardDestroy then case_Destroy d tsk s
      else Inl (UnrecognizedOp (tsk_op tsk)))"

subsection \<open>One iteration of the loop\<close>

text \<open>
  From \<open>s.lk.Lock()\<close> to \<open>s.lk.Unlock()\<close>: the switch, then the write to the metadata
  store when \<open>persist\<close> is still true, then the trace when a trace channel is set.
\<close>

definition persist_block :: "DAGStore \<Rightarrow> Shard \<Rightarrow> bool \<Rightarrow> event list" where
  "persist_block d s p =
     (if p then
        Persist s # (case persist d s of
                       None \<Rightarrow> []
                     | Some e \<Rightarrow> [LogWarn ''failed to persist shard'' (Some e)])
      else [])"

definition trace_block :: "DAGStore \<Rightarrow> task \<Rightarrow> Shard \<Rightarrow> event list" where
  "trace_block d tsk s =
     (if traceCh d \<noteq> None
      then [TraceSend (Trace (key s) (tsk_op tsk) (ShardInfo (state s) (err s)))]
      else [])"

definition control_iteration :: "DAGStore \<Rightarrow> task \<Rightarrow> Shard \<Rightarrow> panic + (Shard \<times> event list)" where
  "control_iteration d tsk s =
     (case control_switch d tsk s of
        Inl p \<Rightarrow> Inl p
      | Inr (s', evs, p) \<Rightarrow>
          Inr (s', [Lock (tsk_shard tsk)] @ evs @ persist_block d s' p @ trace_block d tsk s'
                   @ [Unlock (tsk_shard tsk)]))"

subsection \<open>The loop\<close>

text \<open>
  The loop runs on what \<open>consumeNext\<close> returns, one pair of task and error per call. The
  shards live in a heap, since a task holds a pointer. The loop returns at the first
  error, panics when a task or its shard is nil or the tag is unknown, and waits in
  \<open>consumeNext\<close> when the list is used up.
\<close>

type_synonym heap = "addr \<rightharpoonup> Shard"

datatype loop_exit = Returned | Panicked panic | Waiting

fun control :: "DAGStore \<Rightarrow> heap \<Rightarrow> (task option \<times> error option) list
                 \<Rightarrow> loop_exit \<times> heap \<times> event list" where
  "control d h [] = (Waiting, h, [])"
| "control d h ((t, Some e) # rest) = (Returned, h, [])"
| "control d h ((None, None) # rest) = (Panicked NilPointerDereference, h, [])"
| "control d h ((Some tsk, None) # rest) =
     (case h (tsk_shard tsk) of
        None \<Rightarrow> (Panicked NilPointerDereference, h, [])
      | Some s \<Rightarrow>
          (case control_iteration d tsk s of
             Inl p \<Rightarrow> (Panicked p, h, [])
           | Inr (s', evs) \<Rightarrow>
               (case control d (h(tsk_shard tsk \<mapsto> s')) rest of
                  (x, h', evs') \<Rightarrow> (x, h', evs @ evs'))))"

subsection \<open>consumeNext\<close>










subsection \<open>Predicates the properties are stated with\<close>

definition defined_op :: "OpType \<Rightarrow> bool" where
  "defined_op x = (x \<in> {OpShardRegister, OpShardInitialize, OpShardMakeAvailable, OpShardDestroy,
                          OpShardAcquire, OpShardFail, OpShardRecover})"



definition is_Persist :: "event \<Rightarrow> bool" where
  "is_Persist e = (case e of Persist x \<Rightarrow> True | _ \<Rightarrow> False)"

definition no_Persist :: "event list \<Rightarrow> bool" where
  "no_Persist evs = (filter is_Persist evs = [])"

definition is_Unlock :: "event \<Rightarrow> bool" where
  "is_Unlock e = (case e of Unlock a \<Rightarrow> True | _ \<Rightarrow> False)"

definition no_Unlock :: "event list \<Rightarrow> bool" where
  "no_Unlock evs = (filter is_Unlock evs = [])"

text \<open>The reply a parked waiter gets: one dispatch when the pointer is set, none when it is nil.\<close>

definition reply_to :: "ShardResult \<Rightarrow> waiter option \<Rightarrow> event list" where
  "reply_to res w = (case w of None \<Rightarrow> [] | Some x \<Rightarrow> [DispatchResult res (Some x)])"

subsection \<open>Concrete stores, shards and tasks\<close>

text \<open>
  A store with both sinks set, no index for any key, a reload that finds the record as it
  is in memory, and a metadata store that accepts every delete and every write.
\<close>

definition ex_store :: DAGStore where
  "ex_store = \<lparr>d_ctx = Some (Ctx 0), failureCh = Some 90, traceCh = Some 91,
                StatFullIndex = (\<lambda>k. (\<lparr>Exists = False\<rparr>, None)),
                shardFromPersistentState = (\<lambda>s. (None, s)),
                store_Delete = (\<lambda>k. None),
                persist = (\<lambda>s. None)\<rparr>"

definition ex_error :: error where
  "ex_error = ErrorString ''boom''"

definition ex_waiter :: "nat \<Rightarrow> waiter" where
  "ex_waiter n = \<lparr>ctx = Some (Ctx n), outCh = Some n\<rparr>"

definition ex_shard :: Shard where
  "ex_shard = \<lparr>key = ''A'', state = ShardStateNew, err = None, lazy = False, mount = 7,
                wRegister = None, wRecover = None, wAcquire = [],
                recoverOnNextAcquire = False\<rparr>"

definition ex_parked :: Shard where
  "ex_parked = ex_shard\<lparr>wRegister := Some (ex_waiter 1), wRecover := Some (ex_waiter 2),
                         wAcquire := [ex_waiter 3, ex_waiter 4]\<rparr>"

definition ex_errored :: Shard where
  "ex_errored = ex_shard\<lparr>state := ShardStateErrored, err := Some ex_error\<rparr>"

definition ex_task :: "OpType \<Rightarrow> nat \<Rightarrow> task" where
  "ex_task x n = \<lparr>tsk_waiter = Some (ex_waiter n), tsk_op = x, tsk_shard = 0, tsk_err = None\<rparr>"


section \<open>Properties\<close>

lemmas OpType_defs =
  OpShardRegister_def OpShardInitialize_def OpShardMakeAvailable_def OpShardDestroy_def
  OpShardAcquire_def OpShardFail_def OpShardRecover_def

subsection \<open>Helper facts\<close>

lemma chain_self: "e \<in> set (chain e)"
  by (cases e) simp_all

lemma errors_Is_wrap: "errors_Is (Errorf f [err_arg (Some e)]) e"
  by (simp add: errors_Is_def err_arg_def chain_self)

lemma no_Persist_simps [simp]:
  "no_Persist []"
  "no_Persist (e # evs) = (\<not> is_Persist e \<and> no_Persist evs)"
  "no_Persist (xs @ ys) = (no_Persist xs \<and> no_Persist ys)"
  by (simp_all add: no_Persist_def)

lemma is_Persist_simps [simp]:
  "is_Persist (Persist s)"
  "\<not> is_Persist (Lock a)"
  "\<not> is_Persist (Unlock a)"
  "\<not> is_Persist (QueueTask t ch)"
  "\<not> is_Persist (DispatchResult res w)"
  "\<not> is_Persist (SendDispatchFailure res fw)"
  "\<not> is_Persist (Go g)"
  "\<not> is_Persist (LogWarn m e)"
  "\<not> is_Persist (TraceSend tr)"
  by (simp_all add: is_Persist_def)

lemma no_Unlock_simps [simp]:
  "no_Unlock []"
  "no_Unlock (e # evs) = (\<not> is_Unlock e \<and> no_Unlock evs)"
  "no_Unlock (xs @ ys) = (no_Unlock xs \<and> no_Unlock ys)"
  by (simp_all add: no_Unlock_def)

lemma is_Unlock_simps [simp]:
  "is_Unlock (Unlock a)"
  "\<not> is_Unlock (Lock a)"
  "\<not> is_Unlock (Persist s)"
  "\<not> is_Unlock (QueueTask t ch)"
  "\<not> is_Unlock (DispatchResult res w)"
  "\<not> is_Unlock (SendDispatchFailure res fw)"
  "\<not> is_Unlock (Go g)"
  "\<not> is_Unlock (LogWarn m e)"
  "\<not> is_Unlock (TraceSend tr)"
  by (simp_all add: is_Unlock_def)

lemma no_Unlock_dispatchResult [simp]: "no_Unlock (dispatchResult res ws)"
  by (induction ws) (simp_all add: dispatchResult_def)

lemma no_Unlock_queueTask [simp]: "no_Unlock (queueTask t ch)"
  by (simp add: queueTask_def)

lemma no_Unlock_failShard [simp]: "no_Unlock (failShard a ch f args)"
  by (simp add: failShard_def)

lemma no_Unlock_map_Go [simp]: "no_Unlock (map (\<lambda>w. Go (f w)) ws)"
  by (induction ws) simp_all

lemma no_Persist_dispatchResult [simp]: "no_Persist (dispatchResult res ws)"
  by (induction ws) (simp_all add: dispatchResult_def)

lemma no_Persist_queueTask [simp]: "no_Persist (queueTask t ch)"
  by (simp add: queueTask_def)

lemma no_Persist_failShard [simp]: "no_Persist (failShard a ch f args)"
  by (simp add: failShard_def)

lemma no_Persist_map_Go [simp]: "no_Persist (map (\<lambda>w. Go (f w)) ws)"
  by (induction ws) simp_all

lemma no_Persist_trace_block [simp]: "no_Persist (trace_block d tsk s)"
  by (simp add: trace_block_def)


subsection \<open>The default branch\<close>

lemma case_Register_no_default: "case_Register d tsk s \<noteq> Inl (UnrecognizedOp n)"
  by (simp add: case_Register_def)

lemma case_Initialize_no_default: "case_Initialize d tsk s \<noteq> Inl (UnrecognizedOp n)"
  by (simp add: case_Initialize_def split: prod.splits option.splits)

lemma case_MakeAvailable_no_default: "case_MakeAvailable d tsk s \<noteq> Inl (UnrecognizedOp n)"
  by (simp add: case_MakeAvailable_def Let_def)

lemma case_Acquire_no_default: "case_Acquire d tsk s \<noteq> Inl (UnrecognizedOp n)"
  by (simp add: case_Acquire_def Let_def split: prod.splits option.splits)

lemma case_Fail_no_default: "case_Fail d tsk s \<noteq> Inl (UnrecognizedOp n)"
  by (simp add: case_Fail_def Let_def)

lemma case_Recover_no_default: "case_Recover d tsk s \<noteq> Inl (UnrecognizedOp n)"
  by (simp add: case_Recover_def split: prod.splits option.splits)

lemma case_Destroy_no_default: "case_Destroy d tsk s \<noteq> Inl (UnrecognizedOp n)"
  by (simp add: case_Destroy_def split: option.splits)

lemmas cases_no_default =
  case_Register_no_default case_Initialize_no_default case_MakeAvailable_no_default
  case_Acquire_no_default case_Fail_no_default case_Recover_no_default case_Destroy_no_default

lemma control_switch_no_default:
  "defined_op (tsk_op tsk) \<Longrightarrow> control_switch d tsk s \<noteq> Inl (UnrecognizedOp n)"
  by (auto simp: control_switch_def defined_op_def cases_no_default)

lemma control_switch_default:
  "\<not> defined_op (tsk_op tsk) \<Longrightarrow> control_switch d tsk s = Inl (UnrecognizedOp (tsk_op tsk))"
  by (auto simp: control_switch_def defined_op_def)

lemma control_iteration_no_default:
  "defined_op (tsk_op tsk) \<Longrightarrow> control_iteration d tsk s \<noteq> Inl (UnrecognizedOp n)"
  using control_switch_no_default [of tsk d s n]
  by (auto simp: control_iteration_def split: sum.splits)

lemma control_iteration_default:
  "\<not> defined_op (tsk_op tsk) \<Longrightarrow> control_iteration d tsk s = Inl (UnrecognizedOp (tsk_op tsk))"
  by (simp add: control_iteration_def control_switch_default)

text \<open>
  C10. A task whose tag is one of the seven constants of \<open>OpType\<close> never reaches the panic
  of the default branch of the switch; the iteration ends in that panic exactly when the
  tag is none of the seven.
\<close>

theorem default_panic_unreachable:
  "(defined_op (tsk_op tsk) \<longrightarrow> control_iteration d tsk s \<noteq> Inl (UnrecognizedOp n))
   \<and> (\<not> defined_op (tsk_op tsk) \<longrightarrow>
        control_iteration d tsk s = Inl (UnrecognizedOp (tsk_op tsk)))"
proof (cases "defined_op (tsk_op tsk)")
  case True
  then have "control_iteration d tsk s \<noteq> Inl (UnrecognizedOp n)"
    by (rule control_iteration_no_default)
  with True show ?thesis by simp
next
  case False
  then have "control_iteration d tsk s = Inl (UnrecognizedOp (tsk_op tsk))"
    by (rule control_iteration_default)
  with False show ?thesis by simp
qed

theorem default_panic_unreachable_witness:
  "defined_op (tsk_op (ex_task OpShardAcquire 1))
   \<and> control_iteration ex_store (ex_task OpShardAcquire 1) ex_shard \<noteq> Inl (UnrecognizedOp 4)
   \<and> \<not> defined_op (tsk_op (ex_task 7 1))
   \<and> control_iteration ex_store (ex_task 7 1) ex_shard = Inl (UnrecognizedOp 7)"
  using default_panic_unreachable [of "ex_task OpShardAcquire 1" ex_store ex_shard 4]
    default_panic_unreachable [of "ex_task 7 1" ex_store ex_shard 4]
  by (simp add: defined_op_def ex_task_def OpType_defs)

text \<open>
  The same for the loop as a whole: on tasks with defined tags only, the loop does not
  end in the panic of the default branch.
\<close>

lemma control_no_default:
  "(\<forall>t. (Some t, None) \<in> set inputs \<longrightarrow> defined_op (tsk_op t)) \<Longrightarrow>
     fst (control d h inputs) \<noteq> Panicked (UnrecognizedOp n)"
proof (induction d h inputs rule: control.induct)
  case (4 d h tsk rest)
  show ?case
  proof (cases "h (tsk_shard tsk)")
    case None
    then show ?thesis by simp
  next
    case (Some s)
    have op: "defined_op (tsk_op tsk)" using "4.prems" by simp
    show ?thesis
    proof (cases "control_iteration d tsk s")
      case (Inl p)
      with control_iteration_no_default [OF op, of d s n] have "p \<noteq> UnrecognizedOp n" by auto
      with Some Inl show ?thesis by simp
    next
      case (Inr r)
      obtain s' evs where r: "r = (s', evs)" by (cases r)
      have rest: "\<forall>t. (Some t, None) \<in> set rest \<longrightarrow> defined_op (tsk_op t)"
        using "4.prems" by simp
      have "fst (control d (h(tsk_shard tsk \<mapsto> s')) rest) \<noteq> Panicked (UnrecognizedOp n)"
        by (rule "4.IH" [OF Some Inr r [symmetric] rest])
      with Some Inr r show ?thesis by (auto split: prod.splits)
    qed
  qed
qed simp_all

subsection \<open>OpShardMakeAvailable\<close>

text \<open>
  C3. After an \<open>OpShardMakeAvailable\<close> transition the shard is Available with no error,
  whatever its state was; the registration waiter and the recovery waiter were each sent
  the success result for the key if they were set, and both are nil; the list of acquire
  waiters is empty, and one acquire worker was started per waiter that was queued, in the
  order of the queue.
\<close>

theorem makeAvailable_transition:
  assumes "tsk_op tsk = OpShardMakeAvailable"
  shows "control_iteration d tsk s =
           Inr (s\<lparr>state := ShardStateAvailable, err := None, wRegister := None, wRecover := None,
                   wAcquire := []\<rparr>,
                [Lock (tsk_shard tsk)]
                @ reply_to (ShardResult (key s) None) (wRegister s)
                @ reply_to (ShardResult (key s) None) (wRecover s)
                @ map (\<lambda>w. Go (AcquireAsync (ctx w) w (tsk_shard tsk) (mount s))) (wAcquire s)
                @ persist_block d (s\<lparr>state := ShardStateAvailable, err := None, wRegister := None,
                                      wRecover := None, wAcquire := []\<rparr>) True
                @ trace_block d tsk (s\<lparr>state := ShardStateAvailable, err := None,
                                        wRegister := None, wRecover := None, wAcquire := []\<rparr>)
                @ [Unlock (tsk_shard tsk)])"
  using assms
  by (cases s; cases "wRegister s"; cases "wRecover s")
     (simp_all add: control_iteration_def control_switch_def case_MakeAvailable_def OpType_defs
        Let_def reply_to_def dispatchResult_def)

theorem makeAvailable_transition_witness:
  "tsk_op (ex_task OpShardMakeAvailable 5) = OpShardMakeAvailable
   \<and> control_iteration ex_store (ex_task OpShardMakeAvailable 5) ex_parked =
       Inr (ex_shard\<lparr>state := ShardStateAvailable\<rparr>,
            [Lock 0,
             DispatchResult (ShardResult ''A'' None) (Some (ex_waiter 1)),
             DispatchResult (ShardResult ''A'' None) (Some (ex_waiter 2)),
             Go (AcquireAsync (Some (Ctx 3)) (ex_waiter 3) 0 7),
             Go (AcquireAsync (Some (Ctx 4)) (ex_waiter 4) 0 7),
             Persist (ex_shard\<lparr>state := ShardStateAvailable\<rparr>),
             TraceSend (Trace ''A'' OpShardMakeAvailable (ShardInfo ShardStateAvailable None)),
             Unlock 0])"
  using makeAvailable_transition [of "ex_task OpShardMakeAvailable 5" ex_store ex_parked]
  by (simp add: ex_task_def ex_store_def ex_parked_def ex_shard_def ex_waiter_def reply_to_def
      persist_block_def trace_block_def)

subsection \<open>OpShardFail\<close>

text \<open>
  C4. After an \<open>OpShardFail\<close> transition the registration waiter, the recovery waiter and
  the list of acquire waiters are all empty, and each waiter that was present was sent
  exactly one result, an error that wraps the error of the task under the prefix of its
  kind: failed to register shard, failed to recover shard, failed to acquire shard.
\<close>

theorem fail_transition:
  assumes "tsk_op tsk = OpShardFail"
  shows "control_iteration d tsk s =
           Inr (s\<lparr>state := ShardStateErrored, err := tsk_err tsk, wRegister := None,
                   wRecover := None, wAcquire := []\<rparr>,
                [Lock (tsk_shard tsk)]
                @ reply_to (ShardResult (key s)
                     (Some (Errorf ''failed to register shard: %w'' [err_arg (tsk_err tsk)])))
                     (wRegister s)
                @ reply_to (ShardResult (key s)
                     (Some (Errorf ''failed to recover shard: %w'' [err_arg (tsk_err tsk)])))
                     (wRecover s)
                @ map (\<lambda>w. DispatchResult (ShardResult (key s)
                     (Some (Errorf ''failed to acquire shard: %w'' [err_arg (tsk_err tsk)])))
                     (Some w)) (wAcquire s)
                @ (if failureCh d \<noteq> None
                   then [SendDispatchFailure (ShardResult (key s) (tsk_err tsk))
                           \<lparr>ctx = d_ctx d, outCh = failureCh d\<rparr>]
                   else [])
                @ persist_block d (s\<lparr>state := ShardStateErrored, err := tsk_err tsk,
                                      wRegister := None, wRecover := None, wAcquire := []\<rparr>) True
                @ trace_block d tsk (s\<lparr>state := ShardStateErrored, err := tsk_err tsk,
                                        wRegister := None, wRecover := None, wAcquire := []\<rparr>)
                @ [Unlock (tsk_shard tsk)])
         \<and> (\<forall>e. tsk_err tsk = Some e \<longrightarrow>
               errors_Is (Errorf ''failed to register shard: %w'' [err_arg (tsk_err tsk)]) e
               \<and> errors_Is (Errorf ''failed to recover shard: %w'' [err_arg (tsk_err tsk)]) e
               \<and> errors_Is (Errorf ''failed to acquire shard: %w'' [err_arg (tsk_err tsk)]) e)"
proof
  show "control_iteration d tsk s =
           Inr (s\<lparr>state := ShardStateErrored, err := tsk_err tsk, wRegister := None,
                   wRecover := None, wAcquire := []\<rparr>,
                [Lock (tsk_shard tsk)]
                @ reply_to (ShardResult (key s)
                     (Some (Errorf ''failed to register shard: %w'' [err_arg (tsk_err tsk)])))
                     (wRegister s)
                @ reply_to (ShardResult (key s)
                     (Some (Errorf ''failed to recover shard: %w'' [err_arg (tsk_err tsk)])))
                     (wRecover s)
                @ map (\<lambda>w. DispatchResult (ShardResult (key s)
                     (Some (Errorf ''failed to acquire shard: %w'' [err_arg (tsk_err tsk)])))
                     (Some w)) (wAcquire s)
                @ (if failureCh d \<noteq> None
                   then [SendDispatchFailure (ShardResult (key s) (tsk_err tsk))
                           \<lparr>ctx = d_ctx d, outCh = failureCh d\<rparr>]
                   else [])
                @ persist_block d (s\<lparr>state := ShardStateErrored, err := tsk_err tsk,
                                      wRegister := None, wRecover := None, wAcquire := []\<rparr>) True
                @ trace_block d tsk (s\<lparr>state := ShardStateErrored, err := tsk_err tsk,
                                        wRegister := None, wRecover := None, wAcquire := []\<rparr>)
                @ [Unlock (tsk_shard tsk)])"
    using assms
    by (cases s; cases "wRegister s"; cases "wRecover s"; cases "wAcquire s = []")
       (simp_all add: control_iteration_def control_switch_def case_Fail_def OpType_defs
          Let_def reply_to_def dispatchResult_def comp_def)
next
  show "\<forall>e. tsk_err tsk = Some e \<longrightarrow>
               errors_Is (Errorf ''failed to register shard: %w'' [err_arg (tsk_err tsk)]) e
               \<and> errors_Is (Errorf ''failed to recover shard: %w'' [err_arg (tsk_err tsk)]) e
               \<and> errors_Is (Errorf ''failed to acquire shard: %w'' [err_arg (tsk_err tsk)]) e"
    by (simp add: errors_Is_wrap)
qed

theorem fail_transition_witness:
  "tsk_op ((ex_task OpShardFail 5)\<lparr>tsk_err := Some ex_error\<rparr>) = OpShardFail
   \<and> control_iteration ex_store ((ex_task OpShardFail 5)\<lparr>tsk_err := Some ex_error\<rparr>) ex_parked =
       Inr (ex_errored,
            [Lock 0,
             DispatchResult
               (ShardResult ''A'' (Some (Errorf ''failed to register shard: %w'' [ArgW ex_error])))
               (Some (ex_waiter 1)),
             DispatchResult
               (ShardResult ''A'' (Some (Errorf ''failed to recover shard: %w'' [ArgW ex_error])))
               (Some (ex_waiter 2)),
             DispatchResult
               (ShardResult ''A'' (Some (Errorf ''failed to acquire shard: %w'' [ArgW ex_error])))
               (Some (ex_waiter 3)),
             DispatchResult
               (ShardResult ''A'' (Some (Errorf ''failed to acquire shard: %w'' [ArgW ex_error])))
               (Some (ex_waiter 4)),
             SendDispatchFailure (ShardResult ''A'' (Some ex_error))
               \<lparr>ctx = Some (Ctx 0), outCh = Some 90\<rparr>,
             Persist ex_errored,
             TraceSend (Trace ''A'' OpShardFail (ShardInfo ShardStateErrored (Some ex_error))),
             Unlock 0])
   \<and> errors_Is (Errorf ''failed to register shard: %w'' [ArgW ex_error]) ex_error
   \<and> errors_Is (Errorf ''failed to recover shard: %w'' [ArgW ex_error]) ex_error
   \<and> errors_Is (Errorf ''failed to acquire shard: %w'' [ArgW ex_error]) ex_error"
  using fail_transition [of "(ex_task OpShardFail 5)\<lparr>tsk_err := Some ex_error\<rparr>" ex_store ex_parked]
  by (simp add: ex_task_def ex_store_def ex_parked_def ex_errored_def ex_shard_def ex_waiter_def
      reply_to_def persist_block_def trace_block_def err_arg_def)

subsection \<open>OpShardInitialize\<close>

text \<open>
  C9. In \<open>OpShardInitialize\<close> an error from \<open>StatFullIndex\<close> is treated exactly as the
  answer that no full index exists: the loop starts the initializer worker, leaves the
  shard record as it is and replies to no waiter. The short cut to
  \<open>OpShardMakeAvailable\<close> is taken only when \<open>StatFullIndex\<close> returns no error and
  reports that the index exists.
\<close>

theorem initialize_stat_error_spawns_worker:
  assumes "tsk_op tsk = OpShardInitialize"
  shows "control_iteration d tsk s =
           (if snd (StatFullIndex d (key s)) = None \<and> Exists (fst (StatFullIndex d (key s)))
            then Inr (s, [Lock (tsk_shard tsk),
                          QueueTask \<lparr>tsk_waiter = None, tsk_op = OpShardMakeAvailable,
                                     tsk_shard = tsk_shard tsk, tsk_err = None\<rparr> InternalCh]
                         @ persist_block d s True @ trace_block d tsk s
                         @ [Unlock (tsk_shard tsk)])
            else (case tsk_waiter tsk of
                    None \<Rightarrow> Inl NilPointerDereference
                  | Some tw \<Rightarrow>
                      Inr (s, [Lock (tsk_shard tsk),
                               Go (InitializeShard (ctx tw) (tsk_shard tsk) (mount s))]
                              @ persist_block d s True @ trace_block d tsk s
                              @ [Unlock (tsk_shard tsk)])))
         \<and> (snd (StatFullIndex d (key s)) \<noteq> None \<longrightarrow>
               control_iteration d tsk s =
               control_iteration (d\<lparr>StatFullIndex := (\<lambda>k. (\<lparr>Exists = False\<rparr>, None))\<rparr>) tsk s)"
  using assms
  by (auto simp: control_iteration_def control_switch_def case_Initialize_def OpType_defs
        queueTask_def persist_block_def trace_block_def split: prod.splits option.splits)

theorem initialize_stat_error_spawns_worker_witness:
  "tsk_op (ex_task OpShardInitialize 5) = OpShardInitialize
   \<and> snd (StatFullIndex (ex_store\<lparr>StatFullIndex := (\<lambda>k. (\<lparr>Exists = True\<rparr>, Some ex_error))\<rparr>)
             (key ex_parked)) \<noteq> None
   \<and> control_iteration (ex_store\<lparr>StatFullIndex := (\<lambda>k. (\<lparr>Exists = True\<rparr>, Some ex_error))\<rparr>)
        (ex_task OpShardInitialize 5) ex_parked =
       Inr (ex_parked,
            [Lock 0,
             Go (InitializeShard (Some (Ctx 5)) 0 7),
             Persist ex_parked,
             TraceSend (Trace ''A'' OpShardInitialize (ShardInfo ShardStateNew None)),
             Unlock 0])
   \<and> control_iteration (ex_store\<lparr>StatFullIndex := (\<lambda>k. (\<lparr>Exists = True\<rparr>, Some ex_error))\<rparr>)
        (ex_task OpShardInitialize 5) ex_parked =
       control_iteration ex_store (ex_task OpShardInitialize 5) ex_parked"
  using initialize_stat_error_spawns_worker
          [of "ex_task OpShardInitialize 5"
              "ex_store\<lparr>StatFullIndex := (\<lambda>k. (\<lparr>Exists = True\<rparr>, Some ex_error))\<rparr>" ex_parked]
  by (simp add: ex_task_def ex_store_def ex_parked_def ex_shard_def ex_waiter_def persist_block_def
      trace_block_def control_iteration_def control_switch_def case_Initialize_def OpType_defs)

subsection \<open>OpShardAcquire on an errored shard\<close>

text \<open>
  C7. An \<open>OpShardAcquire\<close> that finds the shard, as reloaded, in state Errored with
  \<open>recoverOnNextAcquire\<close> set appends a waiter with the context and the channel of the
  acquirer to \<open>wAcquire\<close>, clears the flag, and queues an \<open>OpShardRecover\<close> task on the internal channel whose waiter
  carries the global context of the loop, not the context of the acquirer. Nothing is
  replied to the acquirer at that point.
\<close>

theorem acquire_errored_triggers_recover:
  assumes "tsk_op tsk = OpShardAcquire"
    and "tsk_waiter tsk = Some tw"
    and "shardFromPersistentState d s0 = (None, s)"
    and "state s = ShardStateErrored"
    and "recoverOnNextAcquire s"
  shows "control_iteration d tsk s0 =
           Inr (s\<lparr>wAcquire := wAcquire s @ [\<lparr>ctx = ctx tw, outCh = outCh tw\<rparr>],
                   recoverOnNextAcquire := False\<rparr>,
                [Lock (tsk_shard tsk),
                 QueueTask \<lparr>tsk_waiter = Some \<lparr>ctx = d_ctx d, outCh = None\<rparr>,
                            tsk_op = OpShardRecover, tsk_shard = tsk_shard tsk,
                            tsk_err = None\<rparr> InternalCh]
                @ persist_block d
                    (s\<lparr>wAcquire := wAcquire s @ [\<lparr>ctx = ctx tw, outCh = outCh tw\<rparr>],
                       recoverOnNextAcquire := False\<rparr>) True
                @ trace_block d tsk
                    (s\<lparr>wAcquire := wAcquire s @ [\<lparr>ctx = ctx tw, outCh = outCh tw\<rparr>],
                       recoverOnNextAcquire := False\<rparr>)
                @ [Unlock (tsk_shard tsk)])"
  using assms
  by (simp add: control_iteration_def control_switch_def case_Acquire_def OpType_defs
        queueTask_def Let_def)

theorem acquire_errored_triggers_recover_witness:
  "tsk_op (ex_task OpShardAcquire 5) = OpShardAcquire
   \<and> tsk_waiter (ex_task OpShardAcquire 5) = Some (ex_waiter 5)
   \<and> shardFromPersistentState ex_store (ex_errored\<lparr>recoverOnNextAcquire := True\<rparr>) =
       (None, ex_errored\<lparr>recoverOnNextAcquire := True\<rparr>)
   \<and> state (ex_errored\<lparr>recoverOnNextAcquire := True\<rparr>) = ShardStateErrored
   \<and> recoverOnNextAcquire (ex_errored\<lparr>recoverOnNextAcquire := True\<rparr>)
   \<and> control_iteration ex_store (ex_task OpShardAcquire 5)
        (ex_errored\<lparr>recoverOnNextAcquire := True\<rparr>) =
       Inr (ex_errored\<lparr>wAcquire := [ex_waiter 5]\<rparr>,
            [Lock 0,
             QueueTask \<lparr>tsk_waiter = Some \<lparr>ctx = Some (Ctx 0), outCh = None\<rparr>,
                        tsk_op = OpShardRecover, tsk_shard = 0, tsk_err = None\<rparr>
               InternalCh,
             Persist (ex_errored\<lparr>wAcquire := [ex_waiter 5]\<rparr>),
             TraceSend (Trace ''A'' OpShardAcquire (ShardInfo ShardStateErrored (Some ex_error))),
             Unlock 0])"
  using acquire_errored_triggers_recover
          [of "ex_task OpShardAcquire 5" "ex_waiter 5" ex_store
              "ex_errored\<lparr>recoverOnNextAcquire := True\<rparr>"
              "ex_errored\<lparr>recoverOnNextAcquire := True\<rparr>"]
  by (simp add: ex_task_def ex_store_def ex_errored_def ex_shard_def ex_waiter_def
      persist_block_def trace_block_def)

subsection \<open>The write to the metadata store\<close>









lemma cases_persist_indep:
  "case_Register (d\<lparr>persist := pf\<rparr>) tsk s = case_Register d tsk s"
  "case_Initialize (d\<lparr>persist := pf\<rparr>) tsk s = case_Initialize d tsk s"
  "case_MakeAvailable (d\<lparr>persist := pf\<rparr>) tsk s = case_MakeAvailable d tsk s"
  "case_Acquire (d\<lparr>persist := pf\<rparr>) tsk s = case_Acquire d tsk s"
  "case_Fail (d\<lparr>persist := pf\<rparr>) tsk s = case_Fail d tsk s"
  "case_Recover (d\<lparr>persist := pf\<rparr>) tsk s = case_Recover d tsk s"
  "case_Destroy (d\<lparr>persist := pf\<rparr>) tsk s = case_Destroy d tsk s"
  by (simp_all add: case_Register_def case_Initialize_def case_MakeAvailable_def
      case_Acquire_def case_Fail_def case_Recover_def case_Destroy_def Let_def
      split: prod.splits option.splits cong: if_cong)

lemma control_switch_persist_indep:
  "control_switch (d\<lparr>persist := pf\<rparr>) tsk s = control_switch d tsk s"
  by (simp add: control_switch_def cases_persist_indep)

lemma control_iteration_persist_indep:
  "control_iteration d tsk s = Inr (s', evs) \<Longrightarrow>
     \<exists>evs'. control_iteration (d\<lparr>persist := pf\<rparr>) tsk s = Inr (s', evs')"
  by (auto simp: control_iteration_def control_switch_persist_indep split: sum.splits)

lemma control_iteration_persist_indep_panic:
  "control_iteration d tsk s = Inl p \<Longrightarrow> control_iteration (d\<lparr>persist := pf\<rparr>) tsk s = Inl p"
  by (auto simp: control_iteration_def control_switch_persist_indep split: sum.splits)

text \<open>
  Whether the loop returns, panics or goes on, and the shard records it leaves, do not
  depend on what the writes to the metadata store return.
\<close>

lemma control_persist_indep:
  "fst (control (d\<lparr>persist := pf\<rparr>) h inputs) = fst (control d h inputs)
   \<and> fst (snd (control (d\<lparr>persist := pf\<rparr>) h inputs)) = fst (snd (control d h inputs))"
proof (induction d h inputs rule: control.induct)
  case (4 d h tsk rest)
  show ?case
  proof (cases "h (tsk_shard tsk)")
    case None
    then show ?thesis by simp
  next
    case (Some s)
    show ?thesis
    proof (cases "control_iteration d tsk s")
      case (Inl p)
      from control_iteration_persist_indep_panic [OF Inl, of pf] Inl Some
      show ?thesis by simp
    next
      case (Inr r)
      obtain s' evs where r: "r = (s', evs)" by (cases r)
      from control_iteration_persist_indep [OF Inr [unfolded r], of pf]
      obtain evs' where it: "control_iteration (d\<lparr>persist := pf\<rparr>) tsk s = Inr (s', evs')" by blast
      obtain x1 h1 e1 where c1: "control d (h(tsk_shard tsk \<mapsto> s')) rest = (x1, h1, e1)"
        by (cases "control d (h(tsk_shard tsk \<mapsto> s')) rest")
      obtain x2 h2 e2
        where c2: "control (d\<lparr>persist := pf\<rparr>) (h(tsk_shard tsk \<mapsto> s')) rest = (x2, h2, e2)"
        by (cases "control (d\<lparr>persist := pf\<rparr>) (h(tsk_shard tsk \<mapsto> s')) rest")
      from "4.IH" [OF Some Inr r [symmetric]] have "x2 = x1" "h2 = h1"
        by (simp_all only: c1 c2 fst_conv snd_conv)
      with Some Inr r it c1 c2 show ?thesis by simp
    qed
  qed
qed simp_all



subsection \<open>Who writes state and err\<close>











subsection \<open>consumeNext\<close>



subsection \<open>OpShardRecover\<close>

text \<open>
  What an \<open>OpShardRecover\<close> does when the reload succeeds and leaves the shard in state
  Errored: it overwrites \<open>wRecover\<close> with the waiter of the task, whatever was parked
  there, starts the initializer and replies to nobody.
\<close>

lemma control_iteration_Recover_parks:
  assumes "tsk_op tsk = OpShardRecover"
    and "tsk_waiter tsk = Some tw"
    and "shardFromPersistentState d s0 = (None, s)"
    and "state s = ShardStateErrored"
  shows "control_iteration d tsk s0 =
           Inr (s\<lparr>wRecover := Some tw\<rparr>,
                [Lock (tsk_shard tsk),
                 Go (InitializeShard (ctx tw) (tsk_shard tsk) (mount s))]
                @ persist_block d (s\<lparr>wRecover := Some tw\<rparr>) True
                @ trace_block d tsk (s\<lparr>wRecover := Some tw\<rparr>)
                @ [Unlock (tsk_shard tsk)])"
  using assms
  by (simp add: control_iteration_def control_switch_def case_Recover_def OpType_defs)

text \<open>
  C2. Every waiter handed to the loop is to get exactly one reply, and a waiter parked in
  \<open>wRecover\<close> is not to be dropped. The loop does drop one: two \<open>OpShardRecover\<close> tasks
  on an errored shard, with waiters 1 and 2, followed by the \<open>OpShardMakeAvailable\<close> of
  the recovery. The second recover replaces waiter 1 in \<open>wRecover\<close>; the only reply of
  the whole run goes to waiter 2, and waiter 1 is parked nowhere at the end.
\<close>

theorem recover_twice_drops_first_waiter:
  "control (ex_store\<lparr>traceCh := None\<rparr>) [0 \<mapsto> ex_errored]
     [(Some (ex_task OpShardRecover 1), None),
      (Some (ex_task OpShardRecover 2), None),
      (Some (ex_task OpShardMakeAvailable 3), None)] =
     (Waiting,
      [0 \<mapsto> ex_shard\<lparr>state := ShardStateAvailable\<rparr>],
      [Lock 0,
       Go (InitializeShard (Some (Ctx 1)) 0 7),
       Persist (ex_errored\<lparr>wRecover := Some (ex_waiter 1)\<rparr>),
       Unlock 0,
       Lock 0,
       Go (InitializeShard (Some (Ctx 2)) 0 7),
       Persist (ex_errored\<lparr>wRecover := Some (ex_waiter 2)\<rparr>),
       Unlock 0,
       Lock 0,
       DispatchResult (ShardResult ''A'' None) (Some (ex_waiter 2)),
       Persist (ex_shard\<lparr>state := ShardStateAvailable\<rparr>),
       Unlock 0])"
  by (simp add: ex_task_def ex_store_def ex_shard_def ex_errored_def persist_block_def
      trace_block_def control_iteration_def control_switch_def case_Recover_def
      case_MakeAvailable_def OpType_defs dispatchResult_def Let_def ex_waiter_def)

subsection \<open>OpShardDestroy\<close>

lemma control_iteration_Destroy:
  assumes "tsk_op tsk = OpShardDestroy"
  shows "control_iteration d tsk s =
           Inr (s, [Lock (tsk_shard tsk)]
                   @ (case store_Delete d (key s) of
                        None \<Rightarrow> []
                      | Some e \<Rightarrow>
                          if errors_Is e ErrNotFound then []
                          else [DispatchResult
                                  (ShardResult (key s)
                                     (Some (Errorf ''failed to delete shard %s: %w''
                                              [ArgKey (key s), ArgW e])))
                                  (tsk_waiter tsk)])
                   @ trace_block d tsk s @ [Unlock (tsk_shard tsk)])"
  using assms
  by (simp add: control_iteration_def control_switch_def case_Destroy_def OpType_defs
        dispatchResult_def persist_block_def split: option.splits)

text \<open>
  C6. A destroy that succeeds is to deliver the success result for the key to the waiter
  of the caller. The loop delivers nothing: when the delete returns no error, and when it
  returns the not-found error, the iteration dispatches no result at all; only another
  error of the delete is replied, wrapped.
\<close>

theorem destroy_success_sends_no_reply:
  "control_iteration ex_store (ex_task OpShardDestroy 1) ex_shard =
     Inr (ex_shard,
          [Lock 0,
           TraceSend (Trace ''A'' OpShardDestroy (ShardInfo ShardStateNew None)),
           Unlock 0])
   \<and> control_iteration (ex_store\<lparr>store_Delete := (\<lambda>k. Some ErrNotFound)\<rparr>)
        (ex_task OpShardDestroy 1) ex_shard =
       Inr (ex_shard,
            [Lock 0,
             TraceSend (Trace ''A'' OpShardDestroy (ShardInfo ShardStateNew None)),
             Unlock 0])
   \<and> control_iteration (ex_store\<lparr>store_Delete := (\<lambda>k. Some ex_error)\<rparr>)
        (ex_task OpShardDestroy 1) ex_shard =
       Inr (ex_shard,
            [Lock 0,
             DispatchResult
               (ShardResult ''A''
                  (Some (Errorf ''failed to delete shard %s: %w'' [ArgKey ''A'', ArgW ex_error])))
               (Some (ex_waiter 1)),
             TraceSend (Trace ''A'' OpShardDestroy (ShardInfo ShardStateNew None)),
             Unlock 0])"
  by (simp add: ex_task_def ex_store_def ex_shard_def ex_error_def persist_block_def
      trace_block_def control_iteration_def control_switch_def case_Destroy_def OpType_defs
      dispatchResult_def errors_Is_def ErrNotFound_def)


end
